theory Spec2Isabelle
  imports Complex_Main
begin

section \<open>Errors and results\<close>

text \<open>
  Every exception that \<^verbatim>\<open>audioldm/pipeline.py\<close> can raise, or that can reach it from a
  callee, is a value. \<open>Raised\<close> carries an exception thrown by one of the external
  collaborators (file reading, feature extraction, the model's own methods).
\<close>

datatype error =
    AssertionError
  | RuntimeError
  | TypeError
  | KeyError
  | IndexError
  | Raised string

definition and_then :: "error + 'a \<Rightarrow> ('a \<Rightarrow> error + 'b) \<Rightarrow> error + 'b" where
  "and_then r f = (case r of Inl e \<Rightarrow> Inl e | Inr a \<Rightarrow> f a)"

section \<open>Tensors, as far as the pipeline looks at them\<close>

text \<open>
  The pipeline inspects only the shape of a tensor. A tensor is its shape together with
  where its elements come from: freshly allocated zeros, or data handed in from outside
  (of an arbitrary type \<open>'d\<close>).
\<close>

datatype 'd storage = Zero_filled | Backed 'd

datatype 'd tensor = Tensor (storage: "'d storage") (sizes: "nat list")

text \<open>\<^verbatim>\<open>torch.zeros(shape)\<close>: a negative dimension is rejected with a RuntimeError.\<close>

definition zeros :: "int list \<Rightarrow> error + 'd tensor" where
  "zeros shape =
     (if \<exists>n \<in> set shape. n < 0 then Inl RuntimeError
      else Inr (Tensor Zero_filled (map nat shape)))"

text \<open>
  \<^verbatim>\<open>torch.FloatTensor(x)\<close> on an array or tensor: the same shape and elements, as 32-bit
  floats. The element type is not modelled, so this is the identity.
\<close>

definition FloatTensor :: "'d tensor \<Rightarrow> 'd tensor" where
  "FloatTensor t = t"

text \<open>
  \<^verbatim>\<open>t.expand(*target)\<close>. Dimensions are matched from the right. A target of \<open>-1\<close>
  keeps the existing size and is not allowed for a new leading dimension; any other target
  must equal the existing size unless that size is 1. Both lists are given reversed.
\<close>

fun expand_sizes :: "nat list \<Rightarrow> int list \<Rightarrow> error + int list" where
  "expand_sizes ns [] = Inr []"
| "expand_sizes [] (t # ts) =
     (if t = -1 then Inl RuntimeError
      else and_then (expand_sizes [] ts) (\<lambda>r. Inr (t # r)))"
| "expand_sizes (n # ns) (t # ts) =
     (let t' = (if t = -1 then int n else t) in
      if int n \<noteq> t' \<and> n \<noteq> 1 then Inl RuntimeError
      else and_then (expand_sizes ns ts) (\<lambda>r. Inr (t' # r)))"

definition expand :: "'d tensor \<Rightarrow> int list \<Rightarrow> error + 'd tensor" where
  "expand t target =
     (if length target < length (sizes t) then Inl RuntimeError
      else and_then (expand_sizes (rev (sizes t)) (rev target)) (\<lambda>r.
        if \<exists>n \<in> set r. n < 0 then Inl RuntimeError
        else Inr (Tensor (storage t) (map nat (rev r)))))"

text \<open>\<^verbatim>\<open>t.size(0)\<close>: the leading dimension; a tensor without dimensions has none.\<close>

definition size0 :: "'d tensor \<Rightarrow> error + int" where
  "size0 t = (case sizes t of [] \<Rightarrow> Inl IndexError | n # _ \<Rightarrow> Inr (int n))"

text \<open>\<^verbatim>\<open>t[None, ...]\<close> and \<^verbatim>\<open>t.unsqueeze(0)\<close>: a new leading dimension of size 1.\<close>

definition unsqueeze0 :: "'d tensor \<Rightarrow> 'd tensor" where
  "unsqueeze0 t = Tensor (storage t) (1 # sizes t)"

section \<open>The batch builder\<close>

text \<open>
  The batch is the 6-tuple \<^verbatim>\<open>(fbank, stft, None, fname, waveform, text)\<close>; the third
  slot is always \<^verbatim>\<open>None\<close>.
\<close>

record 'd batch =
  fbank_of :: "'d tensor"
  stft_of :: "'d tensor"
  none_of :: unit
  fname_of :: "string list"
  waveform_of :: "'d tensor"
  text_of :: "string list"

definition batchsize_warning :: string where
  "batchsize_warning = ''Warning: Batchsize must be at least 1. Batchsize is set to .''"

text \<open>
  \<^verbatim>\<open>assert t.size(0) == batchsize\<close>, returning the tensor when the assertion holds.
\<close>

definition assert_size0 :: "'d tensor \<Rightarrow> int \<Rightarrow> error + 'd tensor" where
  "assert_size0 t batchsize =
     and_then (size0 t) (\<lambda>n. if n = batchsize then Inr t else Inl AssertionError)"

text \<open>
  \<^verbatim>\<open>make_batch_for_text_to_audio(text, waveform=None, fbank=None, batchsize=1)\<close>.
  The result is the lines printed and either the exception raised or the batch.
  \<^verbatim>\<open>[x] * n\<close> is the empty list for \<open>n \<le> 0\<close>.
\<close>

definition make_fbank :: "'d tensor option \<Rightarrow> int \<Rightarrow> error + 'd tensor" where
  "make_fbank fbank batchsize =
     (case fbank of
        None \<Rightarrow> zeros [batchsize, 1024, 64]
      | Some f \<Rightarrow>
          and_then (expand (FloatTensor f) [batchsize, 1024, 64]) (\<lambda>f'.
            assert_size0 f' batchsize))"

definition make_waveform :: "'d tensor option \<Rightarrow> int \<Rightarrow> error + 'd tensor" where
  "make_waveform waveform batchsize =
     (case waveform of
        None \<Rightarrow> zeros [batchsize, 160000]
      | Some w \<Rightarrow>
          and_then (expand (FloatTensor w) [batchsize, -1]) (\<lambda>w'.
            assert_size0 w' batchsize))"

definition make_batch_for_text_to_audio ::
  "string \<Rightarrow> 'd tensor option \<Rightarrow> 'd tensor option \<Rightarrow> int \<Rightarrow> string list \<times> (error + 'd batch)"
where
  "make_batch_for_text_to_audio text waveform fbank batchsize =
     (let texts = replicate (nat batchsize) text;
          printed = (if batchsize < 1 then [batchsize_warning] else [])
      in (printed,
          and_then (make_fbank fbank batchsize) (\<lambda>fb.
          and_then (zeros [batchsize, 1024, 512]) (\<lambda>st.
          and_then (make_waveform waveform batchsize) (\<lambda>wv.
            Inr \<lparr> fbank_of = fb, stft_of = st, none_of = (),
                  fname_of = replicate (nat batchsize) '''', waveform_of = wv,
                  text_of = texts \<rparr>)))))"

section \<open>Durations and the conditioning selector\<close>

text \<open>
  Python's \<^verbatim>\<open>int(x)\<close> on a number truncates toward zero. Python floats are taken as
  reals: products are exact.
\<close>

definition py_int :: "real \<Rightarrow> int" where
  "py_int x = (if 0 \<le> x then \<lfloor>x\<rfloor> else \<lceil>x\<rceil>)"

definition duration_to_latent_t_size :: "real \<Rightarrow> int" where
  "duration_to_latent_t_size duration = py_int (duration * 25.6)"

text \<open>
  The model object. Only three of its attributes are named by the pipeline; every other
  attribute lives in the extension part of the two records.
\<close>

record cond_stage_model =
  embed_mode :: string

record 'c latent_diffusion =
  cond_stage_key :: string
  cond_stage_model :: "'c cond_stage_model_scheme"
  latent_t_size :: int

definition set_cond_audio ::
  "('c, 'm) latent_diffusion_scheme \<Rightarrow> ('c, 'm) latent_diffusion_scheme" where
  "set_cond_audio ld =
     ld\<lparr> cond_stage_key := ''waveform'',
         cond_stage_model := (cond_stage_model ld)\<lparr> embed_mode := ''audio'' \<rparr> \<rparr>"

definition set_cond_text ::
  "('c, 'm) latent_diffusion_scheme \<Rightarrow> ('c, 'm) latent_diffusion_scheme" where
  "set_cond_text ld =
     ld\<lparr> cond_stage_key := ''text'',
         cond_stage_model := (cond_stage_model ld)\<lparr> embed_mode := ''text'' \<rparr> \<rparr>"


section \<open>Effects of the entry points\<close>

text \<open>
  The entry points change the model object in place, call collaborators that live outside
  \<^verbatim>\<open>pipeline.py\<close>, and print. A run starts in a world, which is the model together with
  everything else the collaborators can reach (the process-wide random generator, the
  file system, the sampler objects), and yields the exception or the value, the world it
  leaves behind, and the log of what it printed and called. Each log entry holds the call
  with its arguments and the model as it was at that moment.
\<close>

datatype device = Cuda0 | Cpu

datatype 'd call =
    Print string
  | Cuda_is_available
  | Seed_everything int
  | Read_wav_file "string option" int
  | Yaml_load string
  | Default_audioldm_config
  | TacotronSTFT "'d list"
  | Wav_to_fbank "string option" int 'd
  | Repeat "'d tensor" int
  | Generate_sample "'d batch list" real int int real
  | Generate_sample_masked "'d batch list" real int int real "real \<times> real" "real \<times> real"
  | Encode_first_stage "'d tensor"
  | Get_first_stage_encoding 'd
  | DDIMSampler
  | Make_schedule 'd int real bool
  | Ema_scope_enter
  | Ema_scope_exit
  | Get_unconditional_condition int
  | Get_learned_conditioning "string list"
  | Stochastic_encode 'd 'd "int list" device
  | Decode 'd 'd 'd int real "'d option"
  | Decode_first_stage 'd
  | Decode_to_waveform 'd

type_synonym ('c, 'm) model = "('c, 'm) latent_diffusion_scheme"

type_synonym ('c, 'm, 'g) world = "('c, 'm) model \<times> 'g"

type_synonym ('d, 'c, 'm) entry = "'d call \<times> ('c, 'm) model"

type_synonym ('d, 'c, 'm, 'g, 'r) prog =
  "('c, 'm, 'g) world \<Rightarrow> (error + 'r) \<times> ('c, 'm, 'g) world \<times> ('d, 'c, 'm) entry list"

definition ret :: "'r \<Rightarrow> ('d, 'c, 'm, 'g, 'r) prog" where
  "ret x = (\<lambda>w. (Inr x, w, []))"

definition throw :: "error \<Rightarrow> ('d, 'c, 'm, 'g, 'r) prog" where
  "throw e = (\<lambda>w. (Inl e, w, []))"

definition lift :: "error + 'r \<Rightarrow> ('d, 'c, 'm, 'g, 'r) prog" where
  "lift r = (\<lambda>w. (r, w, []))"

text \<open>One statement after the other; an exception ends the run where it is raised.\<close>

definition seq ::
  "('d, 'c, 'm, 'g, 'a) prog \<Rightarrow> ('a \<Rightarrow> ('d, 'c, 'm, 'g, 'b) prog) \<Rightarrow> ('d, 'c, 'm, 'g, 'b) prog"
where
  "seq p f = (\<lambda>w.
     case p w of
       (Inl e, w', l) \<Rightarrow> (Inl e, w', l)
     | (Inr a, w', l) \<Rightarrow> (case f a w' of (r, w'', l') \<Rightarrow> (r, w'', l @ l')))"

definition logged :: "'d call \<Rightarrow> ('d, 'c, 'm, 'g, unit) prog" where
  "logged c = (\<lambda>w. (Inr (), w, [(c, fst w)]))"

text \<open>An attribute assignment on the model object.\<close>

definition assign :: "(('c, 'm) model \<Rightarrow> ('c, 'm) model) \<Rightarrow> ('d, 'c, 'm, 'g, unit) prog" where
  "assign upd = (\<lambda>w. (Inr (), (upd (fst w), snd w), []))"

text \<open>
  A call of a method of the model object, or of an object that holds the model: it sees
  the whole world and may change all of it.
\<close>

definition on_model ::
  "'d call \<Rightarrow> (('c, 'm, 'g) world \<Rightarrow> (error + 'r) \<times> ('c, 'm, 'g) world) \<Rightarrow>
     ('d, 'c, 'm, 'g, 'r) prog"
where
  "on_model c f = seq (logged c) (\<lambda>_. \<lambda>w. case f w of (r, w') \<Rightarrow> (r, w', []))"

text \<open>A call of a function that is not given the model: the model stays as it is.\<close>

definition on_globals ::
  "'d call \<Rightarrow> ('g \<Rightarrow> (error + 'r) \<times> 'g) \<Rightarrow> ('d, 'c, 'm, 'g, 'r) prog"
where
  "on_globals c f =
     seq (logged c) (\<lambda>_. \<lambda>w. case f (snd w) of (r, g') \<Rightarrow> (r, (fst w, g'), []))"

text \<open>
  The body of a \<^verbatim>\<open>with\<close> statement followed by the exit of its context manager, which
  runs whether or not the body raised.
\<close>

definition ensuring ::
  "('d, 'c, 'm, 'g, 'r) prog \<Rightarrow> ('d, 'c, 'm, 'g, unit) prog \<Rightarrow> ('d, 'c, 'm, 'g, 'r) prog"
where
  "ensuring body cleanup = (\<lambda>w.
     case body w of (r, w', l) \<Rightarrow>
       (case cleanup w' of
          (Inl e, w'', l') \<Rightarrow> (Inl e, w'', l @ l')
        | (Inr _, w'', l') \<Rightarrow> (r, w'', l @ l')))"

fun print_lines :: "string list \<Rightarrow> ('d, 'c, 'm, 'g, unit) prog" where
  "print_lines [] = ret ()"
| "print_lines (x # xs) = seq (logged (Print x)) (\<lambda>_. print_lines xs)"

text \<open>The batch builder inside a run: what it printed goes to the log.\<close>

definition build_batch ::
  "string \<Rightarrow> 'd tensor option \<Rightarrow> 'd tensor option \<Rightarrow> int \<Rightarrow> ('d, 'c, 'm, 'g, 'd batch) prog"
where
  "build_batch text waveform fbank batchsize =
     (case make_batch_for_text_to_audio text waveform fbank batchsize of
        (printed, r) \<Rightarrow> seq (print_lines printed) (\<lambda>_. lift r))"

section \<open>The collaborators\<close>

text \<open>
  The configuration is a nested dictionary; it is kept as a map from key paths to values.
  A missing key raises.
\<close>

type_synonym 'd config = "string list \<Rightarrow> 'd option"

definition config_get :: "'d config \<Rightarrow> string list \<Rightarrow> error + 'd" where
  "config_get cfg path = (case cfg path of None \<Rightarrow> Inl KeyError | Some v \<Rightarrow> Inr v)"

fun config_get_all :: "'d config \<Rightarrow> string list list \<Rightarrow> error + 'd list" where
  "config_get_all cfg [] = Inr []"
| "config_get_all cfg (p # ps) =
     and_then (config_get cfg p) (\<lambda>v.
     and_then (config_get_all cfg ps) (\<lambda>vs. Inr (v # vs)))"

text \<open>
  What the \<^verbatim>\<open>config\<close> argument can be: \<^verbatim>\<open>None\<close>, a string, or a value of another type.
\<close>

datatype config_arg = Config_None | Config_str string | Config_other

text \<open>
  The functions and methods that \<^verbatim>\<open>pipeline.py\<close> imports or calls on the model. Their code
  is not part of the file; each is a parameter. Those above the line are plain functions,
  which do not get the model; those below are methods of the model, of its stages, or of
  the sampler built on it.
\<close>

record ('d, 'c, 'm, 'g) collaborators =
  cuda_is_available :: "'g \<Rightarrow> (error + bool) \<times> 'g"
  seed_everything :: "int \<Rightarrow> 'g \<Rightarrow> (error + unit) \<times> 'g"
  read_wav_file :: "string option \<Rightarrow> int \<Rightarrow> 'g \<Rightarrow> (error + 'd tensor) \<times> 'g"
  yaml_load :: "string \<Rightarrow> 'g \<Rightarrow> (error + 'd config) \<times> 'g"
  default_audioldm_config :: "'g \<Rightarrow> (error + 'd config) \<times> 'g"
  tacotronSTFT :: "'d list \<Rightarrow> 'g \<Rightarrow> (error + 'd) \<times> 'g"
  wav_to_fbank :: "string option \<Rightarrow> int \<Rightarrow> 'd \<Rightarrow> 'g \<Rightarrow> (error + 'd tensor) \<times> 'g"
  repeat :: "'d tensor \<Rightarrow> int \<Rightarrow> 'g \<Rightarrow> (error + 'd tensor) \<times> 'g"
  generate_sample ::
    "'d batch list \<Rightarrow> real \<Rightarrow> int \<Rightarrow> int \<Rightarrow> real \<Rightarrow>
       ('c, 'm, 'g) world \<Rightarrow> (error + 'd) \<times> ('c, 'm, 'g) world"
  generate_sample_masked ::
    "'d batch list \<Rightarrow> real \<Rightarrow> int \<Rightarrow> int \<Rightarrow> real \<Rightarrow> real \<times> real \<Rightarrow> real \<times> real \<Rightarrow>
       ('c, 'm, 'g) world \<Rightarrow> (error + 'd) \<times> ('c, 'm, 'g) world"
  encode_first_stage ::
    "'d tensor \<Rightarrow> ('c, 'm, 'g) world \<Rightarrow> (error + 'd) \<times> ('c, 'm, 'g) world"
  get_first_stage_encoding ::
    "'d \<Rightarrow> ('c, 'm, 'g) world \<Rightarrow> (error + 'd) \<times> ('c, 'm, 'g) world"
  ddimSampler :: "('c, 'm, 'g) world \<Rightarrow> (error + 'd) \<times> ('c, 'm, 'g) world"
  make_schedule ::
    "'d \<Rightarrow> int \<Rightarrow> real \<Rightarrow> bool \<Rightarrow> ('c, 'm, 'g) world \<Rightarrow> (error + unit) \<times> ('c, 'm, 'g) world"
  ema_scope_enter :: "('c, 'm, 'g) world \<Rightarrow> (error + unit) \<times> ('c, 'm, 'g) world"
  ema_scope_exit :: "('c, 'm, 'g) world \<Rightarrow> (error + unit) \<times> ('c, 'm, 'g) world"
  get_unconditional_condition ::
    "int \<Rightarrow> ('c, 'm, 'g) world \<Rightarrow> (error + 'd) \<times> ('c, 'm, 'g) world"
  get_learned_conditioning ::
    "string list \<Rightarrow> ('c, 'm, 'g) world \<Rightarrow> (error + 'd) \<times> ('c, 'm, 'g) world"
  stochastic_encode ::
    "'d \<Rightarrow> 'd \<Rightarrow> int list \<Rightarrow> device \<Rightarrow>
       ('c, 'm, 'g) world \<Rightarrow> (error + 'd) \<times> ('c, 'm, 'g) world"
  decode ::
    "'d \<Rightarrow> 'd \<Rightarrow> 'd \<Rightarrow> int \<Rightarrow> real \<Rightarrow> 'd option \<Rightarrow>
       ('c, 'm, 'g) world \<Rightarrow> (error + 'd) \<times> ('c, 'm, 'g) world"
  decode_first_stage ::
    "'d \<Rightarrow> ('c, 'm, 'g) world \<Rightarrow> (error + 'd) \<times> ('c, 'm, 'g) world"
  decode_to_waveform ::
    "'d \<Rightarrow> ('c, 'm, 'g) world \<Rightarrow> (error + 'd) \<times> ('c, 'm, 'g) world"

section \<open>The entry points\<close>

text \<open>\<^verbatim>\<open>"%s" % path\<close>, where the path may be \<^verbatim>\<open>None\<close>.\<close>

definition py_str :: "string option \<Rightarrow> string" where
  "py_str p = (case p of None \<Rightarrow> ''None'' | Some s \<Rightarrow> s)"

text \<open>
  The lines shared by \<^verbatim>\<open>style_transfer\<close> and \<^verbatim>\<open>super_resolution_and_inpainting\<close>: the
  configuration is the built-in one when the argument is \<^verbatim>\<open>None\<close> and is loaded from the
  file otherwise, after \<^verbatim>\<open>assert type(config) is str\<close>.
\<close>

definition get_config ::
  "('d, 'c, 'm, 'g) collaborators \<Rightarrow> config_arg \<Rightarrow> ('d, 'c, 'm, 'g, 'd config) prog"
where
  "get_config env config =
     (case config of
        Config_None \<Rightarrow> on_globals Default_audioldm_config (default_audioldm_config env)
      | Config_str path \<Rightarrow> on_globals (Yaml_load path) (yaml_load env path)
      | Config_other \<Rightarrow> throw AssertionError)"

definition stft_keys :: "string list list" where
  "stft_keys =
     [[''preprocessing'', ''stft'', ''filter_length''],
      [''preprocessing'', ''stft'', ''hop_length''],
      [''preprocessing'', ''stft'', ''win_length''],
      [''preprocessing'', ''mel'', ''n_mel_channels''],
      [''preprocessing'', ''audio'', ''sampling_rate''],
      [''preprocessing'', ''mel'', ''mel_fmin''],
      [''preprocessing'', ''mel'', ''mel_fmax'']]"

definition make_fn_STFT ::
  "('d, 'c, 'm, 'g) collaborators \<Rightarrow> 'd config \<Rightarrow> ('d, 'c, 'm, 'g, 'd) prog"
where
  "make_fn_STFT env config =
     seq (lift (config_get_all config stft_keys)) (\<lambda>args.
       on_globals (TacotronSTFT args) (tacotronSTFT env args))"

text \<open>
  \<^verbatim>\<open>text_to_audio\<close>. The seed is an integer. \<^verbatim>\<open>read_wav_file\<close> returns an array, never
  \<^verbatim>\<open>None\<close>, so the waveform is present exactly when a path was given.
  \<^verbatim>\<open>torch.no_grad()\<close> does not touch anything modelled here.
\<close>

definition text_to_audio ::
  "('d, 'c, 'm, 'g) collaborators \<Rightarrow> string \<Rightarrow> string option \<Rightarrow> int \<Rightarrow> int \<Rightarrow> real \<Rightarrow> int \<Rightarrow>
     real \<Rightarrow> int \<Rightarrow> config_arg \<Rightarrow> ('d, 'c, 'm, 'g, 'd) prog"
where
  "text_to_audio env text original_audio_file_path seed ddim_steps duration batchsize
       guidance_scale n_candidate_gen_per_text config =
     seq (on_globals (Seed_everything seed) (seed_everything env seed)) (\<lambda>_.
     seq (case original_audio_file_path of
            None \<Rightarrow> ret None
          | Some p \<Rightarrow>
              seq (on_globals
                     (Read_wav_file original_audio_file_path (py_int (duration * 102.4) * 160))
                     (read_wav_file env original_audio_file_path
                        (py_int (duration * 102.4) * 160)))
                  (\<lambda>w. ret (Some w))) (\<lambda>waveform.
     seq (build_batch text waveform None batchsize) (\<lambda>batch.
     seq (assign (\<lambda>ld. ld\<lparr> latent_t_size := duration_to_latent_t_size duration \<rparr>)) (\<lambda>_.
     seq (case waveform of
            Some _ \<Rightarrow>
              seq (logged (Print (''Generate audio that has similar content as '' @
                                  py_str original_audio_file_path)))
                  (\<lambda>_. assign set_cond_audio)
          | None \<Rightarrow>
              seq (logged (Print (''Generate audio using text '' @ text)))
                  (\<lambda>_. assign set_cond_text)) (\<lambda>_.
     on_model
       (Generate_sample [batch] guidance_scale ddim_steps n_candidate_gen_per_text duration)
       (generate_sample env [batch] guidance_scale ddim_steps n_candidate_gen_per_text
          duration))))))"

text \<open>
  \<^verbatim>\<open>style_transfer\<close>. \<^verbatim>\<open>mel.unsqueeze(0).unsqueeze(0).to(device)\<close> adds two leading
  dimensions; the device a tensor lives on is not modelled. \<^verbatim>\<open>torch.no_grad()\<close> and
  \<^verbatim>\<open>autocast\<close> do not touch anything modelled here; \<^verbatim>\<open>ema_scope\<close> is a method of the
  model.
\<close>

definition style_transfer ::
  "('d, 'c, 'm, 'g) collaborators \<Rightarrow> string \<Rightarrow> string option \<Rightarrow> real \<Rightarrow> int \<Rightarrow> real \<Rightarrow> int \<Rightarrow>
     real \<Rightarrow> int \<Rightarrow> config_arg \<Rightarrow> ('d, 'c, 'm, 'g, 'd) prog"
where
  "style_transfer env text original_audio_file_path transfer_strength seed duration batchsize
       guidance_scale ddim_steps config =
     seq (on_globals Cuda_is_available (cuda_is_available env)) (\<lambda>cuda.
     let device = (if cuda then Cuda0 else Cpu) in
     seq (assign set_cond_text) (\<lambda>_.
     seq (get_config env config) (\<lambda>config.
     seq (on_globals (Seed_everything seed) (seed_everything env seed)) (\<lambda>_.
     seq (assign (\<lambda>ld. ld\<lparr> latent_t_size := duration_to_latent_t_size duration \<rparr>)) (\<lambda>_.
     seq (assign (\<lambda>ld. ld\<lparr> cond_stage_model :=
                              (cond_stage_model ld)\<lparr> embed_mode := ''text'' \<rparr> \<rparr>)) (\<lambda>_.
     seq (make_fn_STFT env config) (\<lambda>fn_STFT.
     seq (on_globals
            (Wav_to_fbank original_audio_file_path (py_int (duration * 102.4)) fn_STFT)
            (wav_to_fbank env original_audio_file_path (py_int (duration * 102.4)) fn_STFT))
         (\<lambda>mel.
     seq (on_globals (Repeat (unsqueeze0 (unsqueeze0 mel)) batchsize)
            (repeat env (unsqueeze0 (unsqueeze0 mel)) batchsize)) (\<lambda>mel.
     seq (on_model (Encode_first_stage mel) (encode_first_stage env mel)) (\<lambda>encoded.
     seq (on_model (Get_first_stage_encoding encoded) (get_first_stage_encoding env encoded))
         (\<lambda>init_latent.
     seq (on_model DDIMSampler (ddimSampler env)) (\<lambda>sampler.
     seq (on_model (Make_schedule sampler ddim_steps 1 False)
            (make_schedule env sampler ddim_steps 1 False)) (\<lambda>_.
     let t_enc = py_int (transfer_strength * real_of_int ddim_steps) in
     seq (on_model Ema_scope_enter (ema_scope_enter env)) (\<lambda>_.
     ensuring
       (seq (if guidance_scale \<noteq> 1
             then seq (on_model (Get_unconditional_condition batchsize)
                         (get_unconditional_condition env batchsize))
                      (\<lambda>u. ret (Some u))
             else ret None) (\<lambda>uc.
        seq (on_model (Get_learned_conditioning (replicate (nat batchsize) text))
               (get_learned_conditioning env (replicate (nat batchsize) text))) (\<lambda>c.
        seq (on_model
               (Stochastic_encode sampler init_latent (replicate (nat batchsize) t_enc) device)
               (stochastic_encode env sampler init_latent (replicate (nat batchsize) t_enc)
                  device)) (\<lambda>z_enc.
        seq (on_model (Decode sampler z_enc c t_enc guidance_scale uc)
               (decode env sampler z_enc c t_enc guidance_scale uc)) (\<lambda>samples.
        seq (on_model (Decode_first_stage samples) (decode_first_stage env samples))
            (\<lambda>x_samples.
        on_model (Decode_to_waveform x_samples) (decode_to_waveform env x_samples)))))))
       (on_model Ema_scope_exit (ema_scope_exit env))))))))))))))))"

text \<open>
  \<^verbatim>\<open>super_resolution_and_inpainting\<close>. The duration defaults to \<^verbatim>\<open>None\<close>, on which
  \<^verbatim>\<open>duration * 102.4\<close> raises a type error. The assignment to \<^verbatim>\<open>latent_t_size\<close> is
  commented out in the source.
\<close>

definition super_resolution_and_inpainting ::
  "('d, 'c, 'm, 'g) collaborators \<Rightarrow> string \<Rightarrow> string option \<Rightarrow> int \<Rightarrow> int \<Rightarrow> real option \<Rightarrow>
     int \<Rightarrow> real \<Rightarrow> int \<Rightarrow> real \<times> real \<Rightarrow> real \<times> real \<Rightarrow> config_arg \<Rightarrow>
     ('d, 'c, 'm, 'g, 'd) prog"
where
  "super_resolution_and_inpainting env text original_audio_file_path seed ddim_steps duration
       batchsize guidance_scale n_candidate_gen_per_text time_mask_ratio_start_and_end
       freq_mask_ratio_start_and_end config =
     seq (on_globals (Seed_everything seed) (seed_everything env seed)) (\<lambda>_.
     seq (get_config env config) (\<lambda>config.
     seq (make_fn_STFT env config) (\<lambda>fn_STFT.
     seq (case duration of None \<Rightarrow> throw TypeError | Some d \<Rightarrow> ret d) (\<lambda>d.
     seq (on_globals (Wav_to_fbank original_audio_file_path (py_int (d * 102.4)) fn_STFT)
            (wav_to_fbank env original_audio_file_path (py_int (d * 102.4)) fn_STFT)) (\<lambda>mel.
     seq (build_batch text None (Some (unsqueeze0 mel)) batchsize) (\<lambda>batch.
     seq (assign set_cond_text) (\<lambda>_.
     on_model
       (Generate_sample_masked [batch] guidance_scale ddim_steps n_candidate_gen_per_text d
          time_mask_ratio_start_and_end freq_mask_ratio_start_and_end)
       (generate_sample_masked env [batch] guidance_scale ddim_steps n_candidate_gen_per_text d
          time_mask_ratio_start_and_end freq_mask_ratio_start_and_end))))))))"

section \<open>What a collaborator leaves alone\<close>

text \<open>
  The methods of the model may assign to any of its attributes. These predicates say
  that a call leaves the two conditioning attributes, or the latent time size, as they
  were.
\<close>

definition keeps_conditioning ::
  "(('c, 'm, 'g) world \<Rightarrow> (error + 'r) \<times> ('c, 'm, 'g) world) \<Rightarrow> bool" where
  "keeps_conditioning f \<longleftrightarrow>
     (\<forall>w r w'. f w = (r, w') \<longrightarrow>
        cond_stage_key (fst w') = cond_stage_key (fst w) \<and>
        embed_mode (cond_stage_model (fst w')) = embed_mode (cond_stage_model (fst w)))"

definition keeps_latent_t_size ::
  "(('c, 'm, 'g) world \<Rightarrow> (error + 'r) \<times> ('c, 'm, 'g) world) \<Rightarrow> bool" where
  "keeps_latent_t_size f \<longleftrightarrow>
     (\<forall>w r w'. f w = (r, w') \<longrightarrow> latent_t_size (fst w') = latent_t_size (fst w))"

text \<open>
  The methods that \<^verbatim>\<open>style_transfer\<close> calls between selecting the conditioning and the
  sampler's \<^verbatim>\<open>decode\<close>.
\<close>

definition conditioning_untouched :: "('d, 'c, 'm, 'g) collaborators \<Rightarrow> bool" where
  "conditioning_untouched env \<longleftrightarrow>
     (\<forall>x. keeps_conditioning (encode_first_stage env x)) \<and>
     (\<forall>x. keeps_conditioning (get_first_stage_encoding env x)) \<and>
     keeps_conditioning (ddimSampler env) \<and>
     (\<forall>s n eta v. keeps_conditioning (make_schedule env s n eta v)) \<and>
     keeps_conditioning (ema_scope_enter env) \<and>
     (\<forall>b. keeps_conditioning (get_unconditional_condition env b)) \<and>
     (\<forall>ts. keeps_conditioning (get_learned_conditioning env ts)) \<and>
     (\<forall>s x ts dev. keeps_conditioning (stochastic_encode env s x ts dev))"

section \<open>A concrete set of collaborators\<close>

text \<open>
  To run the entry points on concrete inputs: collaborators that return fixed values and
  change nothing, and a model that starts out conditioned on audio.
\<close>

definition quiet :: "'r \<Rightarrow> 's \<Rightarrow> (error + 'r) \<times> 's" where
  "quiet x s = (Inr x, s)"

definition demo :: "(nat, unit, unit, unit) collaborators" where
  "demo =
     \<lparr> cuda_is_available = quiet False,
       seed_everything = (\<lambda>_. quiet ()),
       read_wav_file = (\<lambda>_ n. quiet (Tensor (Backed 1) [1, nat n])),
       yaml_load = (\<lambda>_. quiet (\<lambda>_. Some 0)),
       default_audioldm_config = quiet (\<lambda>_. Some 0),
       tacotronSTFT = (\<lambda>_. quiet 2),
       wav_to_fbank = (\<lambda>_ n _. quiet (Tensor (Backed 3) [nat n, 64])),
       repeat = (\<lambda>t b. quiet (Tensor (storage t) (nat b # tl (sizes t)))),
       generate_sample = (\<lambda>_ _ _ _ _. quiet 4),
       generate_sample_masked = (\<lambda>_ _ _ _ _ _ _. quiet 5),
       encode_first_stage = (\<lambda>_. quiet 6),
       get_first_stage_encoding = (\<lambda>_. quiet 7),
       ddimSampler = quiet 8,
       make_schedule = (\<lambda>_ _ _ _. quiet ()),
       ema_scope_enter = quiet (),
       ema_scope_exit = quiet (),
       get_unconditional_condition = (\<lambda>_. quiet 9),
       get_learned_conditioning = (\<lambda>_. quiet 10),
       stochastic_encode = (\<lambda>_ _ _ _. quiet 11),
       decode = (\<lambda>_ _ _ _ _ _. quiet 12),
       decode_first_stage = (\<lambda>_. quiet 13),
       decode_to_waveform = (\<lambda>_. quiet 14) \<rparr>"

definition audio_model :: "(unit, unit) model" where
  "audio_model =
     \<lparr> cond_stage_key = ''waveform'', cond_stage_model = \<lparr> embed_mode = ''audio'' \<rparr>,
       latent_t_size = 0 \<rparr>"

definition text_model :: "int \<Rightarrow> (unit, unit) model" where
  "text_model n =
     \<lparr> cond_stage_key = ''text'', cond_stage_model = \<lparr> embed_mode = ''text'' \<rparr>,
       latent_t_size = n \<rparr>"

section \<open>Reasoning about runs\<close>

text \<open>
  \<open>holds p w l0 Q X\<close>: the run of \<open>p\<close> from world \<open>w\<close>, with \<open>l0\<close> logged before it,
  satisfies \<open>Q\<close> when it returns and \<open>X\<close> when it raises, both about the world left
  behind and the whole log.
\<close>

definition holds ::
  "('d, 'c, 'm, 'g, 'r) prog \<Rightarrow> ('c, 'm, 'g) world \<Rightarrow> ('d, 'c, 'm) entry list \<Rightarrow>
     ('r \<Rightarrow> ('c, 'm, 'g) world \<Rightarrow> ('d, 'c, 'm) entry list \<Rightarrow> bool) \<Rightarrow>
     (('c, 'm, 'g) world \<Rightarrow> ('d, 'c, 'm) entry list \<Rightarrow> bool) \<Rightarrow> bool"
where
  "holds p w l0 Q X =
     (case p w of
        (Inl e, w', l) \<Rightarrow> X w' (l0 @ l)
      | (Inr a, w', l) \<Rightarrow> Q a w' (l0 @ l))"


section \<open>Facts about the batch builder\<close>

lemma and_then_Inr_iff: "and_then r f = Inr y \<longleftrightarrow> (\<exists>a. r = Inr a \<and> f a = Inr y)"
  by (cases r) (simp_all add: and_then_def)


lemma zeros_Inr_iff:
  "zeros shape = Inr t \<longleftrightarrow> (\<forall>n\<in>set shape. 0 \<le> n) \<and> t = Tensor Zero_filled (map nat shape)"
  by (auto simp: zeros_def linorder_not_less[symmetric])


lemma assert_size0_Inr_iff: "assert_size0 t b = Inr t' \<longleftrightarrow> t' = t \<and> size0 t = Inr b"
  by (auto simp: assert_size0_def and_then_def split: sum.splits)



lemma make_fbank_Inr_iff:
  "make_fbank fbank b = Inr fb \<longleftrightarrow>
     (fbank = None \<and> 0 \<le> b \<and> fb = Tensor Zero_filled [nat b, 1024, 64]) \<or>
     (\<exists>f. fbank = Some f \<and> expand (FloatTensor f) [b, 1024, 64] = Inr fb \<and> size0 fb = Inr b)"
  by (cases fbank) (auto simp: make_fbank_def zeros_Inr_iff and_then_Inr_iff assert_size0_Inr_iff)


lemma make_waveform_Inr_iff:
  "make_waveform waveform b = Inr wv \<longleftrightarrow>
     (waveform = None \<and> 0 \<le> b \<and> wv = Tensor Zero_filled [nat b, 160000]) \<or>
     (\<exists>w. waveform = Some w \<and> expand (FloatTensor w) [b, -1] = Inr wv \<and> size0 wv = Inr b)"
  by (cases waveform)
     (auto simp: make_waveform_def zeros_Inr_iff and_then_Inr_iff assert_size0_Inr_iff)


lemma fst_make_batch:
  "fst (make_batch_for_text_to_audio text waveform fbank b) =
     (if b < 1 then [batchsize_warning] else [])"
  by (simp add: make_batch_for_text_to_audio_def Let_def)

lemma snd_make_batch:
  "snd (make_batch_for_text_to_audio text waveform fbank b) =
     and_then (make_fbank fbank b) (\<lambda>fb.
     and_then (zeros [b, 1024, 512]) (\<lambda>st.
     and_then (make_waveform waveform b) (\<lambda>wv.
       Inr \<lparr> fbank_of = fb, stft_of = st, none_of = (),
             fname_of = replicate (nat b) '''', waveform_of = wv,
             text_of = replicate (nat b) text \<rparr>)))"
  by (simp add: make_batch_for_text_to_audio_def Let_def)



text \<open>
  Claim C3. For every batchsize of at least 1 and every text, the builder returns a batch
  when no optional input is given, and every batch it returns, with or without optional
  inputs, has a text list and a filename list of batchsize entries, and mel-spectrogram,
  STFT and waveform tensors whose leading dimension is batchsize.
\<close>

theorem make_batch_leading_dimension:
  "1 \<le> b \<Longrightarrow>
     (\<exists>B. snd (make_batch_for_text_to_audio text None None b) = Inr (B :: 'd batch)) \<and>
     (\<forall>B. snd (make_batch_for_text_to_audio text waveform fbank b) = Inr B \<longrightarrow>
        int (length (text_of B)) = b \<and> int (length (fname_of B)) = b \<and>
        size0 (fbank_of B) = Inr b \<and> size0 (stft_of B) = Inr b \<and>
        size0 (waveform_of B) = Inr b)"
  unfolding snd_make_batch and_then_Inr_iff make_fbank_Inr_iff make_waveform_Inr_iff zeros_Inr_iff
  by (auto simp: size0_def)

theorem make_batch_leading_dimension_witness:
  "(1::int) \<le> 2 \<and>
   snd (make_batch_for_text_to_audio ''dog'' None None 2) =
     Inr \<lparr> fbank_of = Tensor Zero_filled [2, 1024, 64] :: nat tensor,
           stft_of = Tensor Zero_filled [2, 1024, 512], none_of = (),
           fname_of = ['''', ''''], waveform_of = Tensor Zero_filled [2, 160000],
           text_of = [''dog'', ''dog''] \<rparr> \<and>
   size0 (Tensor Zero_filled [2, 1024, 64] :: nat tensor) = Inr 2"
  using make_batch_leading_dimension [of 2 "''dog''" None "None :: nat tensor option"]
  by (simp add: snd_make_batch make_fbank_def make_waveform_def zeros_def and_then_def size0_def
      numeral_2_eq_2)




section \<open>Facts about durations and the conditioning selector\<close>




text \<open>
  Claim C8. Each selector sets the conditioning key and the embed mode, to
  \<open>text\<close>/\<open>text\<close> or to \<open>waveform\<close>/\<open>audio\<close>, and leaves the latent time size and
  every other attribute of the model and of its conditioning stage as it was. Both are
  total: there is no input on which they fail.
\<close>

theorem set_cond_frame:
  "cond_stage_key (set_cond_text ld) = ''text'' \<and>
   embed_mode (cond_stage_model (set_cond_text ld)) = ''text'' \<and>
   cond_stage_model.more (cond_stage_model (set_cond_text ld)) =
     cond_stage_model.more (cond_stage_model ld) \<and>
   latent_t_size (set_cond_text ld) = latent_t_size ld \<and>
   latent_diffusion.more (set_cond_text ld) = latent_diffusion.more ld \<and>
   cond_stage_key (set_cond_audio ld) = ''waveform'' \<and>
   embed_mode (cond_stage_model (set_cond_audio ld)) = ''audio'' \<and>
   cond_stage_model.more (cond_stage_model (set_cond_audio ld)) =
     cond_stage_model.more (cond_stage_model ld) \<and>
   latent_t_size (set_cond_audio ld) = latent_t_size ld \<and>
   latent_diffusion.more (set_cond_audio ld) = latent_diffusion.more ld"
  by (simp add: set_cond_text_def set_cond_audio_def)

section \<open>Rules for reasoning about runs\<close>

lemma holds_ret: "holds (ret x) w l0 Q X = Q x w l0"
  by (simp add: holds_def ret_def)

lemma holds_throw: "holds (throw e) w l0 Q X = X w l0"
  by (simp add: holds_def throw_def)

lemma holds_lift:
  "holds (lift r) w l0 Q X = (case r of Inl e \<Rightarrow> X w l0 | Inr a \<Rightarrow> Q a w l0)"
  by (simp add: holds_def lift_def split: sum.splits)

lemma holds_seq:
  "holds (seq p f) w l0 Q X = holds p w l0 (\<lambda>a w' l1. holds (f a) w' l1 Q X) X"
  by (simp add: holds_def seq_def split: prod.splits sum.splits)

lemma holds_logged: "holds (logged c) w l0 Q X = Q () w (l0 @ [(c, fst w)])"
  by (simp add: holds_def logged_def)

lemma holds_assign: "holds (assign upd) w l0 Q X = Q () (upd (fst w), snd w) l0"
  by (simp add: holds_def assign_def)

lemma holds_on_model:
  "holds (on_model c f) w l0 Q X \<longleftrightarrow>
     (\<forall>a w'. f w = (Inr a, w') \<longrightarrow> Q a w' (l0 @ [(c, fst w)])) \<and>
     (\<forall>e w'. f w = (Inl e, w') \<longrightarrow> X w' (l0 @ [(c, fst w)]))"
  by (cases "f w") (auto simp: holds_def on_model_def seq_def logged_def split: sum.splits)

lemma holds_on_globals:
  "holds (on_globals c f) w l0 Q X \<longleftrightarrow>
     (\<forall>a g'. f (snd w) = (Inr a, g') \<longrightarrow> Q a (fst w, g') (l0 @ [(c, fst w)])) \<and>
     (\<forall>e g'. f (snd w) = (Inl e, g') \<longrightarrow> X (fst w, g') (l0 @ [(c, fst w)]))"
  by (cases "f (snd w)")
     (auto simp: holds_def on_globals_def seq_def logged_def split: sum.splits)

lemma holds_ensuring:
  "holds (ensuring body cleanup) w l0 Q X =
     holds body w l0 (\<lambda>a w' l1. holds cleanup w' l1 (\<lambda>_. Q a) X)
       (\<lambda>w' l1. holds cleanup w' l1 (\<lambda>_. X) X)"
  by (simp add: holds_def ensuring_def split: prod.splits sum.splits)

lemma holds_print_lines:
  "holds (print_lines xs) w l0 Q X = Q () w (l0 @ map (\<lambda>x. (Print x, fst w)) xs)"
  by (induction xs arbitrary: l0) (simp_all add: holds_ret holds_seq holds_logged)

lemma holds_build_batch:
  "holds (build_batch text waveform fbank b) w l0 Q X =
     (case snd (make_batch_for_text_to_audio text waveform fbank b) of
        Inl e \<Rightarrow>
          X w (l0 @ map (\<lambda>x. (Print x, fst w))
                      (fst (make_batch_for_text_to_audio text waveform fbank b)))
      | Inr B \<Rightarrow>
          Q B w (l0 @ map (\<lambda>x. (Print x, fst w))
                        (fst (make_batch_for_text_to_audio text waveform fbank b))))"
  by (cases "make_batch_for_text_to_audio text waveform fbank b")
     (simp add: build_batch_def holds_seq holds_print_lines holds_lift split: sum.splits)

lemma holds_get_config:
  "holds (get_config env config) w l0 Q X \<longleftrightarrow>
     (case config of
        Config_None \<Rightarrow>
          holds (on_globals Default_audioldm_config (default_audioldm_config env)) w l0 Q X
      | Config_str path \<Rightarrow> holds (on_globals (Yaml_load path) (yaml_load env path)) w l0 Q X
      | Config_other \<Rightarrow> X w l0)"
  by (simp add: get_config_def holds_throw split: config_arg.splits)

lemmas holds_rules =
  holds_ret holds_throw holds_lift holds_seq holds_logged holds_assign holds_on_model
  holds_on_globals holds_ensuring holds_build_batch holds_get_config

lemma holdsD:
  "holds p w [] (\<lambda>_. P) P \<Longrightarrow> p w = (r, w', l) \<Longrightarrow> P w' l"
  by (cases r) (simp_all add: holds_def)

lemma holds_caseD:
  "holds p w [] Q X \<Longrightarrow> p w = (r, w', l) \<Longrightarrow>
     (case r of Inl e \<Rightarrow> X w' l | Inr a \<Rightarrow> Q a w' l)"
  by (cases r) (simp_all add: holds_def)

section \<open>Concrete runs\<close>

lemmas run_defs =
  seq_def on_model_def on_globals_def logged_def assign_def ensuring_def ret_def throw_def
  lift_def get_config_def make_fn_STFT_def stft_keys_def config_get_def and_then_def
  demo_def quiet_def py_int_def duration_to_latent_t_size_def set_cond_text_def
  set_cond_audio_def unsqueeze0_def audio_model_def text_model_def Let_def
  build_batch_def make_batch_for_text_to_audio_def make_fbank_def make_waveform_def
  zeros_def expand_def size0_def assert_size0_def FloatTensor_def py_str_def

lemma demo_style_transfer:
  "style_transfer demo ''rain'' (Some ''a.wav'') (1/2) 42 10 1 (5/2) 200 Config_None
     (audio_model, ()) =
   (Inr 14, (text_model 256, ()),
    [(Cuda_is_available, audio_model),
     (Default_audioldm_config, text_model 0),
     (Seed_everything 42, text_model 0),
     (TacotronSTFT [0, 0, 0, 0, 0, 0, 0], text_model 256),
     (Wav_to_fbank (Some ''a.wav'') 1024 2, text_model 256),
     (Repeat (Tensor (Backed 3) [1, 1, 1024, 64]) 1, text_model 256),
     (Encode_first_stage (Tensor (Backed 3) [1, 1, 1024, 64]), text_model 256),
     (Get_first_stage_encoding 6, text_model 256),
     (DDIMSampler, text_model 256),
     (Make_schedule 8 200 1 False, text_model 256),
     (Ema_scope_enter, text_model 256),
     (Get_unconditional_condition 1, text_model 256),
     (Get_learned_conditioning [''rain''], text_model 256),
     (Stochastic_encode 8 7 [100] Cpu, text_model 256),
     (Decode 8 11 10 100 (5/2) (Some 9), text_model 256),
     (Decode_first_stage 12, text_model 256),
     (Decode_to_waveform 13, text_model 256),
     (Ema_scope_exit, text_model 256)])"
  by (simp add: style_transfer_def run_defs)

lemma demo_style_transfer_unguided:
  "style_transfer demo ''rain'' (Some ''a.wav'') 1 42 10 2 1 200 Config_None
     (audio_model, ()) =
   (Inr 14, (text_model 256, ()),
    [(Cuda_is_available, audio_model),
     (Default_audioldm_config, text_model 0),
     (Seed_everything 42, text_model 0),
     (TacotronSTFT [0, 0, 0, 0, 0, 0, 0], text_model 256),
     (Wav_to_fbank (Some ''a.wav'') 1024 2, text_model 256),
     (Repeat (Tensor (Backed 3) [1, 1, 1024, 64]) 2, text_model 256),
     (Encode_first_stage (Tensor (Backed 3) [2, 1, 1024, 64]), text_model 256),
     (Get_first_stage_encoding 6, text_model 256),
     (DDIMSampler, text_model 256),
     (Make_schedule 8 200 1 False, text_model 256),
     (Ema_scope_enter, text_model 256),
     (Get_learned_conditioning [''rain'', ''rain''], text_model 256),
     (Stochastic_encode 8 7 [200, 200] Cpu, text_model 256),
     (Decode 8 11 10 200 1 None, text_model 256),
     (Decode_first_stage 12, text_model 256),
     (Decode_to_waveform 13, text_model 256),
     (Ema_scope_exit, text_model 256)])"
  by (simp add: style_transfer_def run_defs numeral_2_eq_2)

lemma demo_text_to_audio_with_audio:
  "text_to_audio demo ''rain'' (Some ''a.wav'') 42 200 10 1 (5/2) 3 Config_None
     (audio_model, ()) =
   (Inr 4, (audio_model\<lparr> latent_t_size := 256 \<rparr>, ()),
    [(Seed_everything 42, audio_model),
     (Read_wav_file (Some ''a.wav'') 163840, audio_model),
     (Print ''Generate audio that has similar content as a.wav'',
      audio_model\<lparr> latent_t_size := 256 \<rparr>),
     (Generate_sample
        [\<lparr> fbank_of = Tensor Zero_filled [1, 1024, 64],
            stft_of = Tensor Zero_filled [1, 1024, 512], none_of = (),
            fname_of = [''''], waveform_of = Tensor (Backed 1) [1, 163840],
            text_of = [''rain''] \<rparr>] (5/2) 200 3 10,
      audio_model\<lparr> latent_t_size := 256 \<rparr>)])"
  by (simp add: text_to_audio_def run_defs)

lemma demo_text_to_audio_without_audio:
  "text_to_audio demo ''rain'' None 42 200 10 1 (5/2) 3 Config_None (audio_model, ()) =
   (Inr 4, (text_model 256, ()),
    [(Seed_everything 42, audio_model),
     (Print ''Generate audio using text rain'', audio_model\<lparr> latent_t_size := 256 \<rparr>),
     (Generate_sample
        [\<lparr> fbank_of = Tensor Zero_filled [1, 1024, 64],
            stft_of = Tensor Zero_filled [1, 1024, 512], none_of = (),
            fname_of = [''''], waveform_of = Tensor Zero_filled [1, 160000],
            text_of = [''rain''] \<rparr>] (5/2) 200 3 10,
      text_model 256)])"
  by (simp add: text_to_audio_def run_defs)

lemma demo_super_resolution:
  "super_resolution_and_inpainting demo ''rain'' (Some ''a.wav'') 42 200 (Some 10) 1 (5/2) 3
     (1/10, 3/20) (1, 1) Config_None (audio_model, ()) =
   (Inr 5, (text_model 0, ()),
    [(Seed_everything 42, audio_model),
     (Default_audioldm_config, audio_model),
     (TacotronSTFT [0, 0, 0, 0, 0, 0, 0], audio_model),
     (Wav_to_fbank (Some ''a.wav'') 1024 2, audio_model),
     (Generate_sample_masked
        [\<lparr> fbank_of = Tensor (Backed 3) [1, 1024, 64],
            stft_of = Tensor Zero_filled [1, 1024, 512], none_of = (),
            fname_of = [''''], waveform_of = Tensor Zero_filled [1, 160000],
            text_of = [''rain''] \<rparr>] (5/2) 200 3 10 (1/10, 3/20) (1, 1),
      text_model 0)])"
  by (simp add: super_resolution_and_inpainting_def run_defs)

lemma demo_super_resolution_longer:
  "super_resolution_and_inpainting demo ''rain'' (Some ''a.wav'') 42 200 (Some (10001/1000)) 1
     (5/2) 3 (1/10, 3/20) (1, 1) Config_None (audio_model, ()) =
   (Inr 5, (text_model 0, ()),
    [(Seed_everything 42, audio_model),
     (Default_audioldm_config, audio_model),
     (TacotronSTFT [0, 0, 0, 0, 0, 0, 0], audio_model),
     (Wav_to_fbank (Some ''a.wav'') 1024 2, audio_model),
     (Generate_sample_masked
        [\<lparr> fbank_of = Tensor (Backed 3) [1, 1024, 64],
            stft_of = Tensor Zero_filled [1, 1024, 512], none_of = (),
            fname_of = [''''], waveform_of = Tensor Zero_filled [1, 160000],
            text_of = [''rain''] \<rparr>] (5/2) 200 3 (10001/1000) (1/10, 3/20) (1, 1),
      text_model 0)])"
  by (simp add: super_resolution_and_inpainting_def run_defs)

lemma text_model_simps:
  "cond_stage_key (text_model n) = ''text''"
  "embed_mode (cond_stage_model (text_model n)) = ''text''"
  "latent_t_size (text_model n) = n"
  by (simp_all add: text_model_def)

lemma audio_model_simps:
  "cond_stage_key (audio_model\<lparr> latent_t_size := n \<rparr>) = ''waveform''"
  "embed_mode (cond_stage_model (audio_model\<lparr> latent_t_size := n \<rparr>)) = ''audio''"
  "latent_t_size audio_model = 0"
  by (simp_all add: audio_model_def)

lemma demo_keeps_conditioning: "conditioning_untouched demo"
  by (simp add: conditioning_untouched_def keeps_conditioning_def demo_def quiet_def)

lemma demo_keeps_latent_t_size:
  "keeps_latent_t_size (generate_sample_masked demo bs g s k d tm fm)"
  by (simp add: keeps_latent_t_size_def demo_def quiet_def)

section \<open>Facts about the entry points\<close>

text \<open>
  Claim C10. \<^verbatim>\<open>text_to_audio\<close> never reads its \<^verbatim>\<open>config\<close> argument: for any two values
  of it, and the same other arguments, collaborators and world, the run is the same, with
  the same result, the same world left behind and the same log.
\<close>

theorem text_to_audio_ignores_config:
  "text_to_audio env text path seed ddim_steps duration batchsize guidance_scale n config1 w =
   text_to_audio env text path seed ddim_steps duration batchsize guidance_scale n config2 w"
  by (simp add: text_to_audio_def)




lemma style_transfer_uncond:
  "holds (style_transfer env text path ts seed d b gs steps cfg) w []
     (\<lambda>_ _ l.
        (\<forall>k m. (Get_unconditional_condition k, m) \<in> set l \<longrightarrow> gs \<noteq> 1 \<and> k = b) \<and>
        (\<forall>smp z c t g uc m. (Decode smp z c t g uc, m) \<in> set l \<longrightarrow>
           (uc = None \<longleftrightarrow> gs = 1)) \<and>
        (gs \<noteq> 1 \<longrightarrow> (\<exists>m. (Get_unconditional_condition b, m) \<in> set l)))
     (\<lambda>_ l.
        (\<forall>k m. (Get_unconditional_condition k, m) \<in> set l \<longrightarrow> gs \<noteq> 1 \<and> k = b) \<and>
        (\<forall>smp z c t g uc m. (Decode smp z c t g uc, m) \<in> set l \<longrightarrow>
           (uc = None \<longleftrightarrow> gs = 1)) \<and>
        ((\<exists>ts m. (Get_learned_conditioning ts, m) \<in> set l) \<longrightarrow> gs \<noteq> 1 \<longrightarrow>
           (\<exists>m. (Get_unconditional_condition b, m) \<in> set l)))"
  by (auto simp: style_transfer_def make_fn_STFT_def holds_rules Let_def
      split: config_arg.splits sum.splits)

text \<open>
  Claim C5. In \<^verbatim>\<open>style_transfer\<close> with guidance scale 1, the unconditional conditioning
  is never asked for and \<^verbatim>\<open>decode\<close> is handed \<^verbatim>\<open>None\<close>. With any other guidance scale,
  \<^verbatim>\<open>decode\<close> is handed a conditioning, and every run that returns has asked for the
  unconditional conditioning, for batchsize entries.
\<close>

theorem style_transfer_unconditional:
  assumes "style_transfer env text path ts seed d b gs steps cfg w = (r, w', l)"
  shows "(gs = 1 \<longrightarrow>
            (\<forall>k m. (Get_unconditional_condition k, m) \<notin> set l) \<and>
            (\<forall>smp z c t g uc m. (Decode smp z c t g uc, m) \<in> set l \<longrightarrow> uc = None)) \<and>
         (gs \<noteq> 1 \<longrightarrow>
            (\<forall>smp z c t g uc m. (Decode smp z c t g uc, m) \<in> set l \<longrightarrow> uc \<noteq> None) \<and>
            (\<forall>k m. (Get_unconditional_condition k, m) \<in> set l \<longrightarrow> k = b) \<and>
            ((\<exists>a. r = Inr a) \<longrightarrow> (\<exists>m. (Get_unconditional_condition b, m) \<in> set l)))"
proof -
  have "case r of
          Inl e \<Rightarrow>
            (\<forall>k m. (Get_unconditional_condition k, m) \<in> set l \<longrightarrow> gs \<noteq> 1 \<and> k = b) \<and>
            (\<forall>smp z c t g uc m. (Decode smp z c t g uc, m) \<in> set l \<longrightarrow>
               (uc = None \<longleftrightarrow> gs = 1)) \<and>
            ((\<exists>ts m. (Get_learned_conditioning ts, m) \<in> set l) \<longrightarrow> gs \<noteq> 1 \<longrightarrow>
               (\<exists>m. (Get_unconditional_condition b, m) \<in> set l))
        | Inr a \<Rightarrow>
            (\<forall>k m. (Get_unconditional_condition k, m) \<in> set l \<longrightarrow> gs \<noteq> 1 \<and> k = b) \<and>
            (\<forall>smp z c t g uc m. (Decode smp z c t g uc, m) \<in> set l \<longrightarrow>
               (uc = None \<longleftrightarrow> gs = 1)) \<and>
            (gs \<noteq> 1 \<longrightarrow> (\<exists>m. (Get_unconditional_condition b, m) \<in> set l))"
    using holds_caseD [OF style_transfer_uncond assms] by simp
  then show ?thesis
    by (cases r) (simp; blast)+
qed

theorem style_transfer_unconditional_witness:
  "(Decode 8 11 10 200 1 None, text_model 256) \<in>
     set (snd (snd (style_transfer demo ''rain'' (Some ''a.wav'') 1 42 10 2 1 200
                      Config_None (audio_model, ())))) \<and>
   (Get_unconditional_condition 1, text_model 256) \<in>
     set (snd (snd (style_transfer demo ''rain'' (Some ''a.wav'') (1/2) 42 10 1 (5/2) 200
                      Config_None (audio_model, ())))) \<and>
   (Decode 8 11 10 100 (5/2) (Some 9), text_model 256) \<in>
     set (snd (snd (style_transfer demo ''rain'' (Some ''a.wav'') (1/2) 42 10 1 (5/2) 200
                      Config_None (audio_model, ()))))"
  using style_transfer_unconditional [OF demo_style_transfer_unguided]
    style_transfer_unconditional [OF demo_style_transfer]
  by (simp add: demo_style_transfer_unguided demo_style_transfer)

lemma style_transfer_first_model_call:
  "holds (style_transfer env text path ts seed d b gs steps cfg) w []
     (\<lambda>_ _ l. \<forall>x m. (Encode_first_stage x, m) \<in> set l \<longrightarrow>
        cond_stage_key m = ''text'' \<and> embed_mode (cond_stage_model m) = ''text'' \<and>
        latent_t_size m = duration_to_latent_t_size d)
     (\<lambda>_ l. \<forall>x m. (Encode_first_stage x, m) \<in> set l \<longrightarrow>
        cond_stage_key m = ''text'' \<and> embed_mode (cond_stage_model m) = ''text'' \<and>
        latent_t_size m = duration_to_latent_t_size d)"
  by (auto simp: style_transfer_def make_fn_STFT_def holds_rules Let_def set_cond_text_def
      split: config_arg.splits sum.splits)

lemma keeps_conditioningD:
  "keeps_conditioning f \<Longrightarrow> f w = (r, w') \<Longrightarrow>
     cond_stage_key (fst w') = cond_stage_key (fst w) \<and>
     embed_mode (cond_stage_model (fst w')) = embed_mode (cond_stage_model (fst w))"
  unfolding keeps_conditioning_def by blast

lemma text_to_audio_conditioning:
  "holds (text_to_audio env text path seed steps d b gs n cfg) w []
     (\<lambda>_ _ l. \<forall>bs g s k dd m. (Generate_sample bs g s k dd, m) \<in> set l \<longrightarrow>
        cond_stage_key m = (if path = None then ''text'' else ''waveform'') \<and>
        embed_mode (cond_stage_model m) = (if path = None then ''text'' else ''audio''))
     (\<lambda>_ l. \<forall>bs g s k dd m. (Generate_sample bs g s k dd, m) \<in> set l \<longrightarrow>
        cond_stage_key m = (if path = None then ''text'' else ''waveform'') \<and>
        embed_mode (cond_stage_model m) = (if path = None then ''text'' else ''audio''))"
  by (auto simp: text_to_audio_def holds_rules set_cond_text_def set_cond_audio_def
      split: option.splits sum.splits)

lemma super_resolution_conditioning:
  "holds (super_resolution_and_inpainting env text path seed steps dur b gs n tm fm cfg) w []
     (\<lambda>_ _ l. \<forall>bs g s k dd t f m. (Generate_sample_masked bs g s k dd t f, m) \<in> set l \<longrightarrow>
        cond_stage_key m = ''text'' \<and> embed_mode (cond_stage_model m) = ''text'')
     (\<lambda>_ l. \<forall>bs g s k dd t f m. (Generate_sample_masked bs g s k dd t f, m) \<in> set l \<longrightarrow>
        cond_stage_key m = ''text'' \<and> embed_mode (cond_stage_model m) = ''text'')"
  by (auto simp: super_resolution_and_inpainting_def make_fn_STFT_def holds_rules
      set_cond_text_def split: option.splits config_arg.splits sum.splits)

lemma style_transfer_conditioning:
  assumes "conditioning_untouched env"
  shows "holds (style_transfer env text path ts seed d b gs steps cfg) w []
     (\<lambda>_ _ l.
        (\<forall>smp x0 tt dev m. (Stochastic_encode smp x0 tt dev, m) \<in> set l \<longrightarrow>
           cond_stage_key m = ''text'' \<and> embed_mode (cond_stage_model m) = ''text'') \<and>
        (\<forall>smp z c t g uc m. (Decode smp z c t g uc, m) \<in> set l \<longrightarrow>
           cond_stage_key m = ''text'' \<and> embed_mode (cond_stage_model m) = ''text''))
     (\<lambda>_ l.
        (\<forall>smp x0 tt dev m. (Stochastic_encode smp x0 tt dev, m) \<in> set l \<longrightarrow>
           cond_stage_key m = ''text'' \<and> embed_mode (cond_stage_model m) = ''text'') \<and>
        (\<forall>smp z c t g uc m. (Decode smp z c t g uc, m) \<in> set l \<longrightarrow>
           cond_stage_key m = ''text'' \<and> embed_mode (cond_stage_model m) = ''text''))"
proof -
  note k = assms [unfolded conditioning_untouched_def]
  have k1: "keeps_conditioning (encode_first_stage env x)" for x using k by blast
  have k2: "keeps_conditioning (get_first_stage_encoding env x)" for x using k by blast
  have k3: "keeps_conditioning (ddimSampler env)" using k by blast
  have k4: "keeps_conditioning (make_schedule env s n eta v)" for s n eta v using k by blast
  have k5: "keeps_conditioning (ema_scope_enter env)" using k by blast
  have k6: "keeps_conditioning (get_unconditional_condition env j)" for j using k by blast
  have k7: "keeps_conditioning (get_learned_conditioning env xs)" for xs using k by blast
  have k8: "keeps_conditioning (stochastic_encode env s x xs dev)" for s x xs dev
    using k by blast
  show ?thesis
    by (auto simp: style_transfer_def make_fn_STFT_def holds_rules Let_def set_cond_text_def
        split: config_arg.splits sum.splits
        dest!: keeps_conditioningD [OF k1] keeps_conditioningD [OF k2]
          keeps_conditioningD [OF k3] keeps_conditioningD [OF k4] keeps_conditioningD [OF k5]
          keeps_conditioningD [OF k6] keeps_conditioningD [OF k7] keeps_conditioningD [OF k8])
qed

text \<open>
  Claim C1, as stated, on \<^verbatim>\<open>style_transfer\<close>: an audio path is supplied and the model
  comes in conditioned on audio, yet the sampler's \<^verbatim>\<open>decode\<close> is called with the model
  conditioned on text.
\<close>

theorem style_transfer_with_audio_conditions_on_text:
  "(Decode 8 11 10 100 (5/2) (Some 9),
    \<lparr> cond_stage_key = ''text'', cond_stage_model = \<lparr> embed_mode = ''text'' \<rparr>,
      latent_t_size = 256 \<rparr>) \<in>
     set (snd (snd (style_transfer demo ''rain'' (Some ''a.wav'') (1/2) 42 10 1 (5/2) 200
                      Config_None
                      (\<lparr> cond_stage_key = ''waveform'',
                         cond_stage_model = \<lparr> embed_mode = ''audio'' \<rparr>,
                         latent_t_size = 0 \<rparr>, ()))))"
  using demo_style_transfer by (simp add: text_model_def audio_model_def)

text \<open>
  Claim C1, amended. \<^verbatim>\<open>text_to_audio\<close> calls \<^verbatim>\<open>generate_sample\<close> with the model
  conditioned on audio when an audio path is supplied and on text when it is not.
  \<^verbatim>\<open>super_resolution_and_inpainting\<close> calls \<^verbatim>\<open>generate_sample_masked\<close> with the model
  conditioned on text, whatever the audio path. \<^verbatim>\<open>style_transfer\<close> selects text
  conditioning whatever the audio path: its first call of a model method sees it, and so
  do the sampler's \<^verbatim>\<open>stochastic_encode\<close> and \<^verbatim>\<open>decode\<close> when the model methods called in
  between leave the conditioning attributes alone.
\<close>

theorem conditioning_at_sampling:
  "(text_to_audio env prompt path seed steps d b gs n cfg w = (r1, w1, l1) \<longrightarrow>
      (\<forall>bs g s k dd m. (Generate_sample bs g s k dd, m) \<in> set l1 \<longrightarrow>
         cond_stage_key m = (if path = None then ''text'' else ''waveform'') \<and>
         embed_mode (cond_stage_model m) = (if path = None then ''text'' else ''audio''))) \<and>
   (super_resolution_and_inpainting env prompt path seed steps dur b gs n tm fm cfg w
      = (r2, w2, l2) \<longrightarrow>
      (\<forall>bs g s k dd t f m. (Generate_sample_masked bs g s k dd t f, m) \<in> set l2 \<longrightarrow>
         cond_stage_key m = ''text'' \<and> embed_mode (cond_stage_model m) = ''text'')) \<and>
   (style_transfer env prompt path ts seed d b gs steps cfg w = (r3, w3, l3) \<longrightarrow>
      (\<forall>x m. (Encode_first_stage x, m) \<in> set l3 \<longrightarrow>
         cond_stage_key m = ''text'' \<and> embed_mode (cond_stage_model m) = ''text'') \<and>
      (conditioning_untouched env \<longrightarrow>
         (\<forall>smp x0 tt dev m. (Stochastic_encode smp x0 tt dev, m) \<in> set l3 \<longrightarrow>
            cond_stage_key m = ''text'' \<and> embed_mode (cond_stage_model m) = ''text'') \<and>
         (\<forall>smp z c t g uc m. (Decode smp z c t g uc, m) \<in> set l3 \<longrightarrow>
            cond_stage_key m = ''text'' \<and> embed_mode (cond_stage_model m) = ''text'')))"
proof (intro conjI impI)
  assume "text_to_audio env prompt path seed steps d b gs n cfg w = (r1, w1, l1)"
  from holdsD [OF text_to_audio_conditioning this]
  show "\<forall>bs g s k dd m. (Generate_sample bs g s k dd, m) \<in> set l1 \<longrightarrow>
      cond_stage_key m = (if path = None then ''text'' else ''waveform'') \<and>
      embed_mode (cond_stage_model m) = (if path = None then ''text'' else ''audio'')" .
next
  assume "super_resolution_and_inpainting env prompt path seed steps dur b gs n tm fm cfg w
      = (r2, w2, l2)"
  from holdsD [OF super_resolution_conditioning this]
  show "\<forall>bs g s k dd t f m. (Generate_sample_masked bs g s k dd t f, m) \<in> set l2 \<longrightarrow>
      cond_stage_key m = ''text'' \<and> embed_mode (cond_stage_model m) = ''text''" .
next
  assume "style_transfer env prompt path ts seed d b gs steps cfg w = (r3, w3, l3)"
  from holdsD [OF style_transfer_first_model_call this]
  show "\<forall>x m. (Encode_first_stage x, m) \<in> set l3 \<longrightarrow>
      cond_stage_key m = ''text'' \<and> embed_mode (cond_stage_model m) = ''text''"
    by blast
next
  assume run: "style_transfer env prompt path ts seed d b gs steps cfg w = (r3, w3, l3)"
    and "conditioning_untouched env"
  from holdsD [OF style_transfer_conditioning [OF this(2)] run]
  show "\<forall>smp x0 tt dev m. (Stochastic_encode smp x0 tt dev, m) \<in> set l3 \<longrightarrow>
      cond_stage_key m = ''text'' \<and> embed_mode (cond_stage_model m) = ''text''"
    by blast
next
  assume run: "style_transfer env prompt path ts seed d b gs steps cfg w = (r3, w3, l3)"
    and "conditioning_untouched env"
  from holdsD [OF style_transfer_conditioning [OF this(2)] run]
  show "\<forall>smp z c t g uc m. (Decode smp z c t g uc, m) \<in> set l3 \<longrightarrow>
      cond_stage_key m = ''text'' \<and> embed_mode (cond_stage_model m) = ''text''"
    by blast
qed

theorem conditioning_at_sampling_witness:
  "(Generate_sample
      [\<lparr> fbank_of = Tensor Zero_filled [1, 1024, 64],
          stft_of = Tensor Zero_filled [1, 1024, 512], none_of = (),
          fname_of = [''''], waveform_of = Tensor (Backed 1) [1, 163840],
          text_of = [''rain''] \<rparr>] (5/2) 200 3 10,
    audio_model\<lparr> latent_t_size := 256 \<rparr>) \<in>
     set (snd (snd (text_to_audio demo ''rain'' (Some ''a.wav'') 42 200 10 1 (5/2) 3
                      Config_None (audio_model, ())))) \<and>
   cond_stage_key (audio_model\<lparr> latent_t_size := 256 \<rparr>) = ''waveform'' \<and>
   (Generate_sample
      [\<lparr> fbank_of = Tensor Zero_filled [1, 1024, 64],
          stft_of = Tensor Zero_filled [1, 1024, 512], none_of = (),
          fname_of = [''''], waveform_of = Tensor Zero_filled [1, 160000],
          text_of = [''rain''] \<rparr>] (5/2) 200 3 10,
    text_model 256) \<in>
     set (snd (snd (text_to_audio demo ''rain'' None 42 200 10 1 (5/2) 3
                      Config_None (audio_model, ())))) \<and>
   (Generate_sample_masked
      [\<lparr> fbank_of = Tensor (Backed 3) [1, 1024, 64],
          stft_of = Tensor Zero_filled [1, 1024, 512], none_of = (),
          fname_of = [''''], waveform_of = Tensor Zero_filled [1, 160000],
          text_of = [''rain''] \<rparr>] (5/2) 200 3 10 (1/10, 3/20) (1, 1),
    text_model 0) \<in>
     set (snd (snd (super_resolution_and_inpainting demo ''rain'' (Some ''a.wav'') 42 200
                      (Some 10) 1 (5/2) 3 (1/10, 3/20) (1, 1) Config_None
                      (audio_model, ())))) \<and>
   conditioning_untouched demo \<and>
   (Decode 8 11 10 100 (5/2) (Some 9), text_model 256) \<in>
     set (snd (snd (style_transfer demo ''rain'' (Some ''a.wav'') (1/2) 42 10 1 (5/2) 200
                      Config_None (audio_model, ())))) \<and>
   cond_stage_key (text_model 256) = ''text'' \<and>
   embed_mode (cond_stage_model (text_model 256)) = ''text''"
proof -
  have audio: "cond_stage_key (audio_model\<lparr> latent_t_size := 256 \<rparr>) =
      (if Some ''a.wav'' = (None :: string option) then ''text'' else ''waveform'') \<and>
    embed_mode (cond_stage_model (audio_model\<lparr> latent_t_size := 256 \<rparr>)) =
      (if Some ''a.wav'' = (None :: string option) then ''text'' else ''audio'')"
    by (rule conditioning_at_sampling
          [THEN conjunct1, rule_format, OF demo_text_to_audio_with_audio,
            where bs = "[\<lparr> fbank_of = Tensor Zero_filled [1, 1024, 64],
                stft_of = Tensor Zero_filled [1, 1024, 512], none_of = (),
                fname_of = [''''], waveform_of = Tensor (Backed 1) [1, 163840],
                text_of = [''rain''] \<rparr>]"
              and g = "5/2" and s = 200 and k = 3 and dd = 10]) simp
  have decode: "cond_stage_key (text_model 256) = ''text'' \<and>
    embed_mode (cond_stage_model (text_model 256)) = ''text''"
    by (rule conditioning_at_sampling
          [THEN conjunct2, THEN conjunct2, rule_format, OF demo_style_transfer,
            THEN conjunct2, rule_format, OF demo_keeps_conditioning,
            THEN conjunct2, rule_format, of 8 11 10 100 "5/2" "Some 9"]) simp
  from audio decode show ?thesis
    by (simp add: demo_text_to_audio_with_audio demo_text_to_audio_without_audio
        demo_super_resolution demo_style_transfer demo_keeps_conditioning)
qed

lemma keeps_latent_t_sizeD:
  "keeps_latent_t_size f \<Longrightarrow> f w = (r, w') \<Longrightarrow> latent_t_size (fst w') = latent_t_size (fst w)"
  unfolding keeps_latent_t_size_def by blast

lemma text_to_audio_latent_t_size:
  "holds (text_to_audio env text path seed steps d b gs n cfg) w []
     (\<lambda>_ _ l. \<forall>bs g s k dd m. (Generate_sample bs g s k dd, m) \<in> set l \<longrightarrow>
        latent_t_size m = duration_to_latent_t_size d \<and> dd = d)
     (\<lambda>_ l. \<forall>bs g s k dd m. (Generate_sample bs g s k dd, m) \<in> set l \<longrightarrow>
        latent_t_size m = duration_to_latent_t_size d \<and> dd = d)"
  by (auto simp: text_to_audio_def holds_rules set_cond_text_def set_cond_audio_def
      split: option.splits sum.splits)

lemma super_resolution_log:
  "holds (super_resolution_and_inpainting env text path seed steps dur b gs n tm fm cfg) w []
     (\<lambda>_ _ l.
        (\<forall>c m. (c, m) \<in> set l \<longrightarrow> latent_t_size m = latent_t_size (fst w)) \<and>
        (\<forall>p k f m. (Wav_to_fbank p k f, m) \<in> set l \<longrightarrow>
           (\<exists>d. dur = Some d \<and> k = py_int (d * 102.4))) \<and>
        (\<forall>bs g s k dd t f m. (Generate_sample_masked bs g s k dd t f, m) \<in> set l \<longrightarrow>
           dur = Some dd))
     (\<lambda>_ l.
        (\<forall>c m. (c, m) \<in> set l \<longrightarrow> latent_t_size m = latent_t_size (fst w)) \<and>
        (\<forall>p k f m. (Wav_to_fbank p k f, m) \<in> set l \<longrightarrow>
           (\<exists>d. dur = Some d \<and> k = py_int (d * 102.4))) \<and>
        (\<forall>bs g s k dd t f m. (Generate_sample_masked bs g s k dd t f, m) \<in> set l \<longrightarrow>
           dur = Some dd))"
  by (auto simp: super_resolution_and_inpainting_def make_fn_STFT_def holds_rules
      set_cond_text_def fst_make_batch
      split: option.splits config_arg.splits sum.splits if_splits)

lemma super_resolution_final_latent_t_size:
  assumes "\<And>bs g s k dd t f. keeps_latent_t_size (generate_sample_masked env bs g s k dd t f)"
  shows "holds (super_resolution_and_inpainting env text path seed steps dur b gs n tm fm cfg)
     w []
     (\<lambda>_ w' _. latent_t_size (fst w') = latent_t_size (fst w))
     (\<lambda>w' _. latent_t_size (fst w') = latent_t_size (fst w))"
  by (auto simp: super_resolution_and_inpainting_def make_fn_STFT_def holds_rules
      set_cond_text_def
      split: option.splits config_arg.splits sum.splits
      dest!: keeps_latent_t_sizeD [OF assms])

text \<open>
  Claim C9, as stated, on two durations that give the same mel-spectrogram length, 1024
  frames: the two runs of \<^verbatim>\<open>super_resolution_and_inpainting\<close> differ, because the
  duration is also handed to \<^verbatim>\<open>generate_sample_masked\<close>.
\<close>

theorem super_resolution_duration_reaches_sampler:
  "py_int (10 * 102.4) = py_int (10001/1000 * 102.4) \<and>
   super_resolution_and_inpainting demo ''rain'' (Some ''a.wav'') 42 200 (Some 10) 1 (5/2) 3
     (1/10, 3/20) (1, 1) Config_None (audio_model, ()) \<noteq>
   super_resolution_and_inpainting demo ''rain'' (Some ''a.wav'') 42 200 (Some (10001/1000)) 1
     (5/2) 3 (1/10, 3/20) (1, 1) Config_None (audio_model, ())"
  by (simp add: demo_super_resolution demo_super_resolution_longer py_int_def)

text \<open>
  Claim C9, amended. \<^verbatim>\<open>super_resolution_and_inpainting\<close> never assigns the latent time
  size: every call it makes, \<^verbatim>\<open>generate_sample_masked\<close> included, sees the value the model
  came in with, and the model goes out with it when \<^verbatim>\<open>generate_sample_masked\<close> leaves it
  alone. Its duration sets the target length of the mel-spectrogram, 102.4 frames per
  second truncated, and is handed on to \<^verbatim>\<open>generate_sample_masked\<close>. \<^verbatim>\<open>text_to_audio\<close>
  calls \<^verbatim>\<open>generate_sample\<close>, and \<^verbatim>\<open>style_transfer\<close> its first model method, with the latent
  time size set from the duration.
\<close>

theorem latent_t_size_and_duration:
  "(super_resolution_and_inpainting env prompt path seed steps dur b gs n tm fm cfg w
      = (r1, w1, l1) \<longrightarrow>
      (\<forall>c m. (c, m) \<in> set l1 \<longrightarrow> latent_t_size m = latent_t_size (fst w)) \<and>
      (\<forall>p k f m. (Wav_to_fbank p k f, m) \<in> set l1 \<longrightarrow>
         (\<exists>d. dur = Some d \<and> k = py_int (d * 102.4))) \<and>
      (\<forall>bs g s k dd t f m. (Generate_sample_masked bs g s k dd t f, m) \<in> set l1 \<longrightarrow>
         dur = Some dd) \<and>
      ((\<forall>bs g s k dd t f. keeps_latent_t_size (generate_sample_masked env bs g s k dd t f)) \<longrightarrow>
         latent_t_size (fst w1) = latent_t_size (fst w))) \<and>
   (text_to_audio env prompt path seed steps d b gs n cfg w = (r2, w2, l2) \<longrightarrow>
      (\<forall>bs g s k dd m. (Generate_sample bs g s k dd, m) \<in> set l2 \<longrightarrow>
         latent_t_size m = duration_to_latent_t_size d)) \<and>
   (style_transfer env prompt path ts seed d b gs steps cfg w = (r3, w3, l3) \<longrightarrow>
      (\<forall>x m. (Encode_first_stage x, m) \<in> set l3 \<longrightarrow>
         latent_t_size m = duration_to_latent_t_size d))"
proof (intro conjI impI)
  assume "super_resolution_and_inpainting env prompt path seed steps dur b gs n tm fm cfg w
      = (r1, w1, l1)"
  note log = holdsD [OF super_resolution_log this]
  from log show "\<forall>c m. (c, m) \<in> set l1 \<longrightarrow> latent_t_size m = latent_t_size (fst w)"
    by simp
  from log show "\<forall>p k f m. (Wav_to_fbank p k f, m) \<in> set l1 \<longrightarrow>
      (\<exists>d. dur = Some d \<and> k = py_int (d * 102.4))"
    by simp
  from log show "\<forall>bs g s k dd t f m.
      (Generate_sample_masked bs g s k dd t f, m) \<in> set l1 \<longrightarrow> dur = Some dd"
    by simp
next
  assume run: "super_resolution_and_inpainting env prompt path seed steps dur b gs n tm fm cfg w
      = (r1, w1, l1)"
    and "\<forall>bs g s k dd t f. keeps_latent_t_size (generate_sample_masked env bs g s k dd t f)"
  then have "keeps_latent_t_size (generate_sample_masked env bs g s k dd t f)"
    for bs g s k dd t f
    by blast
  from holdsD [OF super_resolution_final_latent_t_size run, OF this]
  show "latent_t_size (fst w1) = latent_t_size (fst w)" .
next
  assume "text_to_audio env prompt path seed steps d b gs n cfg w = (r2, w2, l2)"
  from holdsD [OF text_to_audio_latent_t_size this]
  show "\<forall>bs g s k dd m. (Generate_sample bs g s k dd, m) \<in> set l2 \<longrightarrow>
      latent_t_size m = duration_to_latent_t_size d"
    by blast
next
  assume "style_transfer env prompt path ts seed d b gs steps cfg w = (r3, w3, l3)"
  from holdsD [OF style_transfer_first_model_call this]
  show "\<forall>x m. (Encode_first_stage x, m) \<in> set l3 \<longrightarrow>
      latent_t_size m = duration_to_latent_t_size d"
    by blast
qed

theorem latent_t_size_and_duration_witness:
  "(Generate_sample_masked
      [\<lparr> fbank_of = Tensor (Backed 3) [1, 1024, 64],
          stft_of = Tensor Zero_filled [1, 1024, 512], none_of = (),
          fname_of = [''''], waveform_of = Tensor Zero_filled [1, 160000],
          text_of = [''rain''] \<rparr>] (5/2) 200 3 10 (1/10, 3/20) (1, 1),
    text_model 0) \<in>
     set (snd (snd (super_resolution_and_inpainting demo ''rain'' (Some ''a.wav'') 42 200
                      (Some 10) 1 (5/2) 3 (1/10, 3/20) (1, 1) Config_None
                      (audio_model, ())))) \<and>
   latent_t_size (text_model 0) = latent_t_size audio_model \<and>
   (\<forall>bs g s k dd t f. keeps_latent_t_size (generate_sample_masked demo bs g s k dd t f)) \<and>
   latent_t_size (fst (fst (snd (super_resolution_and_inpainting demo ''rain''
      (Some ''a.wav'') 42 200 (Some 10) 1 (5/2) 3 (1/10, 3/20) (1, 1) Config_None
      (audio_model, ()))))) = 0 \<and>
   (Encode_first_stage (Tensor (Backed 3) [1, 1, 1024, 64]), text_model 256) \<in>
     set (snd (snd (style_transfer demo ''rain'' (Some ''a.wav'') (1/2) 42 10 1 (5/2) 200
                      Config_None (audio_model, ())))) \<and>
   latent_t_size (text_model 256) = duration_to_latent_t_size 10"
  using latent_t_size_and_duration
      [where env = demo and prompt = "''rain''" and path = "Some ''a.wav''" and seed = 42
        and steps = 200 and d = 10 and b = 1 and gs = "5/2" and n = 3 and cfg = Config_None
        and w = "(audio_model, ())" and dur = "Some 10" and tm = "(1/10, 3/20)"
        and fm = "(1, 1)" and ts = "1/2"]
  by (simp add: demo_text_to_audio_with_audio demo_super_resolution demo_style_transfer
      demo_keeps_latent_t_size audio_model_simps text_model_simps
      duration_to_latent_t_size_def py_int_def)


end
